theory Spec2Isabelle
  imports Main
begin

section \<open>JavaScript values\<close>

text \<open>
  The values that filters, documents, options and driver results are made of.
  An object is the list of its own enumerable properties in the order in which
  \<^verbatim>\<open>for ... in\<close> and \<^verbatim>\<open>Object.values\<close> visit them; a JavaScript object
  has each key once (\<open>distinct (map fst kvs)\<close>, assumed where a theorem looks a key
  up). Numbers are integers here (counts and literals; no fractions, no NaN). A native identifier (\<^verbatim>\<open>Mongo.ObjectID\<close>) is the
  constructor \<open>JOid\<close> around the hexadecimal text of its twelve bytes.
\<close>

type_synonym oid = string

datatype jsval =
    JUndefined
  | JNull
  | JBool bool
  | JNum int
  | JStr string
  | JOid oid
  | JArr "jsval list"
  | JObj "(string \<times> jsval) list"

text \<open>
  What can be thrown: the ObjectID constructor refusing its argument, a property
  read or \<^verbatim>\<open>delete\<close> on \<^verbatim>\<open>null\<close> or \<^verbatim>\<open>undefined\<close>, a rejection by
  the remote store, and the \<^verbatim>\<open>Error\<close> that \<^verbatim>\<open>Database.connect\<close> throws.
\<close>

datatype error =
    InvalidIdentifierFormat
  | TypeError
  | OperationFailure string
  | ConnectionFailure string

text \<open>
  \<^verbatim>\<open>new Mongo.ObjectID(x)\<close> belongs to the driver, not to this repository: it is
  a parameter \<open>c\<close> of the model, \<open>c x = None\<close> when the constructor throws on
  \<open>x\<close> (the text is not an identifier encoding) and \<open>c x = Some i\<close> when it
  builds the identifier \<open>i\<close>. It is a function of its argument: identifiers that the
  driver generates from the clock are outside the model.
\<close>

type_synonym objectid_ctor = "jsval \<Rightarrow> oid option"

text \<open>
  An instance of the constructor for concrete evaluations: twenty-four hexadecimal
  digits are an identifier encoding, an identifier is returned as it is, and
  anything else is refused.
\<close>

definition is_hex :: "char \<Rightarrow> bool" where
  "is_hex ch = (ch \<in> set ''0123456789abcdefABCDEF'')"

fun hexObjectID :: objectid_ctor where
  "hexObjectID (JStr s) = (if length s = 24 \<and> list_all is_hex s then Some s else None)"
| "hexObjectID (JOid i) = Some i"
| "hexObjectID v = None"

section \<open>Collection.processFilter\<close>

text \<open>
  processFilter assigns into the filter it is given, so a call that throws leaves
  the filter as far as the loops had come. Every function of this section returns
  the object after the call together with the exception, if one was thrown.
\<close>

type_synonym 'a mutated = "'a \<times> error option"

text \<open>
  Lines 51-53: \<^verbatim>\<open>for(i = 0; i < a.length; i++) a[i] = new Mongo.ObjectID(a[i])\<close>.
\<close>

fun coerceElements :: "objectid_ctor \<Rightarrow> jsval list \<Rightarrow> jsval list mutated" where
  "coerceElements c [] = ([], None)"
| "coerceElements c (x # xs) =
     (case c x of
        None \<Rightarrow> (x # xs, Some InvalidIdentifierFormat)
      | Some i \<Rightarrow> (case coerceElements c xs of (ys, r) \<Rightarrow> (JOid i # ys, r)))"

text \<open>
  Lines 50-54, the body of the inner loop for one property value: only a value
  that is an array is touched.
\<close>

fun coerceIfArray :: "objectid_ctor \<Rightarrow> jsval \<Rightarrow> jsval mutated" where
  "coerceIfArray c (JArr xs) = (case coerceElements c xs of (ys, r) \<Rightarrow> (JArr ys, r))"
| "coerceIfArray c v = (v, None)"

text \<open>Lines 49-55 over the properties of an object: \<^verbatim>\<open>for(let k2 in filter[k1])\<close>.\<close>

fun coerceProperties ::
  "objectid_ctor \<Rightarrow> (string \<times> jsval) list \<Rightarrow> (string \<times> jsval) list mutated" where
  "coerceProperties c [] = ([], None)"
| "coerceProperties c ((k2, v) # ps) =
     (case coerceIfArray c v of
        (v', Some e) \<Rightarrow> ((k2, v') # ps, Some e)
      | (v', None) \<Rightarrow> (case coerceProperties c ps of (ps', r) \<Rightarrow> ((k2, v') # ps', r)))"

text \<open>The same loop over an array, whose keys are its indices.\<close>

fun coerceItems :: "objectid_ctor \<Rightarrow> jsval list \<Rightarrow> jsval list mutated" where
  "coerceItems c [] = ([], None)"
| "coerceItems c (v # vs) =
     (case coerceIfArray c v of
        (v', Some e) \<Rightarrow> (v' # vs, Some e)
      | (v', None) \<Rightarrow> (case coerceItems c vs of (vs', r) \<Rightarrow> (v' # vs', r)))"

text \<open>What \<^verbatim>\<open>typeof\<close> answers.\<close>

fun typeof :: "jsval \<Rightarrow> string" where
  "typeof JUndefined = ''undefined''"
| "typeof JNull = ''object''"
| "typeof (JBool b) = ''boolean''"
| "typeof (JNum n) = ''number''"
| "typeof (JStr s) = ''string''"
| "typeof (JOid i) = ''object''"
| "typeof (JArr vs) = ''object''"
| "typeof (JObj ps) = ''object''"

text \<open>
  Lines 49-55 for each kind of value whose \<^verbatim>\<open>typeof\<close> is \<^verbatim>\<open>'object'\<close>.
  \<^verbatim>\<open>for ... in\<close> over \<^verbatim>\<open>null\<close> visits nothing; the properties of an ObjectID
  (its type tag, a string, its bytes, a buffer, and its methods) are not arrays, so
  the loop assigns nothing there.
\<close>

fun coerceObject :: "objectid_ctor \<Rightarrow> jsval \<Rightarrow> jsval mutated" where
  "coerceObject c (JObj ps) = (case coerceProperties c ps of (ps', r) \<Rightarrow> (JObj ps', r))"
| "coerceObject c (JArr vs) = (case coerceItems c vs of (vs', r) \<Rightarrow> (JArr vs', r))"
| "coerceObject c v = (v, None)"

text \<open>
  Lines 42-57, the \<^verbatim>\<open>switch (typeof filter[k1])\<close>: a number, a boolean and
  \<^verbatim>\<open>undefined\<close> match no case.
\<close>

definition coerceId :: "objectid_ctor \<Rightarrow> jsval \<Rightarrow> jsval mutated" where
  "coerceId c v =
     (if typeof v = ''string'' then
        (case c v of
           None \<Rightarrow> (v, Some InvalidIdentifierFormat)
         | Some i \<Rightarrow> (JOid i, None))
      else if typeof v = ''object'' then coerceObject c v
      else (v, None))"

text \<open>Lines 40-59: \<^verbatim>\<open>for (let k1 in filter) if (k1 === '_id') ...\<close>.\<close>

fun processKeys ::
  "objectid_ctor \<Rightarrow> (string \<times> jsval) list \<Rightarrow> (string \<times> jsval) list mutated" where
  "processKeys c [] = ([], None)"
| "processKeys c ((k1, v) # kvs) =
     (if k1 = ''_id'' then
        (case coerceId c v of
           (v', Some e) \<Rightarrow> ((k1, v') # kvs, Some e)
         | (v', None) \<Rightarrow> (case processKeys c kvs of (kvs', r) \<Rightarrow> ((k1, v') # kvs', r)))
      else (case processKeys c kvs of (kvs', r) \<Rightarrow> ((k1, v) # kvs', r)))"

text \<open>
  The keys of a string or an array are indices and those of an ObjectID are its
  two properties, never \<^verbatim>\<open>_id\<close>; \<^verbatim>\<open>undefined\<close>, \<^verbatim>\<open>null\<close>, a number and a
  boolean have no keys. Such a filter is returned as it is.
\<close>

fun processFilter :: "objectid_ctor \<Rightarrow> jsval \<Rightarrow> jsval mutated" where
  "processFilter c (JObj kvs) = (case processKeys c kvs of (kvs', r) \<Rightarrow> (JObj kvs', r))"
| "processFilter c flt = (flt, None)"

section \<open>Collection.sanitizeFilter\<close>

text \<open>The reserved operator prefix: the key begins with \<^verbatim>\<open>$\<close>.\<close>

definition reserved :: "string \<Rightarrow> bool" where
  "reserved k = (case k of [] \<Rightarrow> False | ch # _ \<Rightarrow> ch = CHR ''$'')"

text \<open>
  Modelled from the spec: \<^verbatim>\<open>sanitize\<close> is the package mongo-sanitize, which
  is not part of the sources. The spec calls it the leaf sanitizer, which strips
  any mapping key beginning with the reserved prefix: it deletes those keys of the
  object it is given, in place, and returns that object. The keys of an array are
  its indices and those of an ObjectID its two properties, so nothing is deleted
  there; any other value is returned as it is.
\<close>

fun sanitize :: "jsval \<Rightarrow> jsval" where
  "sanitize (JObj kvs) = JObj (filter (\<lambda>kv. \<not> reserved (fst kv)) kvs)"
| "sanitize v = v"

text \<open>
  The recursive calls of sanitizeFilter (lines 72 and 77) drop what the call
  returns: they count by what they do to \<^verbatim>\<open>elm\<close> in place. For
  \<^verbatim>\<open>undefined\<close> the default parameter makes a fresh object and \<^verbatim>\<open>elm\<close>
  stays \<^verbatim>\<open>undefined\<close>; otherwise \<^verbatim>\<open>elm\<close> ends as the value returned,
  \<^verbatim>\<open>sanitize\<close> returning the object it was given.
\<close>

definition visit :: "(jsval \<Rightarrow> jsval) \<Rightarrow> jsval \<Rightarrow> jsval" where
  "visit f elm = (if elm = JUndefined then elm else f elm)"

lemma visit_cong [fundef_cong]:
  "x = y \<Longrightarrow> (y \<noteq> JUndefined \<Longrightarrow> f y = g y) \<Longrightarrow> visit f x = visit g y"
  by (simp add: visit_def)

text \<open>
  Lines 69-81. An array passes both tests, \<^verbatim>\<open>Array.isArray\<close> and
  \<^verbatim>\<open>typeof === 'object'\<close>, so its elements are visited twice, the second time
  through \<^verbatim>\<open>Object.values\<close>. \<^verbatim>\<open>null\<close> is excluded by the second test; the
  values of an ObjectID are a string and a buffer of numbers, which no call changes.
\<close>

function sanitizeFilter :: "jsval \<Rightarrow> jsval" where
  "sanitizeFilter JUndefined = sanitize (JObj [])"
| "sanitizeFilter (JArr xs) =
     sanitize (JArr (map (visit sanitizeFilter) (map (visit sanitizeFilter) xs)))"
| "sanitizeFilter (JObj kvs) =
     sanitize (JObj (map (\<lambda>kv. (fst kv, visit sanitizeFilter (snd kv))) kvs))"
| "sanitizeFilter JNull = sanitize JNull"
| "sanitizeFilter (JBool b) = sanitize (JBool b)"
| "sanitizeFilter (JNum n) = sanitize (JNum n)"
| "sanitizeFilter (JStr s) = sanitize (JStr s)"
| "sanitizeFilter (JOid i) = sanitize (JOid i)"
  by pat_completeness auto

text \<open>
  The second visit of an array element is a call on the result of the first, so
  termination needs that no call returns a larger value than it was given.
\<close>

lemma size_list_filter_le: "size_list f (filter P xs) \<le> size_list f xs"
  by (induction xs) auto

lemma size_list_map_le:
  "(\<And>x. x \<in> set xs \<Longrightarrow> f (g x) \<le> f x) \<Longrightarrow> size_list f (map g xs) \<le> size_list f xs"
  by (induction xs) (auto simp: add_mono)

lemma size_member_le: "x \<in> set xs \<Longrightarrow> f x \<le> size_list f xs"
  by (induction xs) auto

lemma size_sanitize: "size (sanitize v) \<le> size v"
  by (cases v) (simp_all add: size_list_filter_le)

lemma size_sanitizeFilter:
  "sanitizeFilter_dom v \<Longrightarrow> v \<noteq> JUndefined \<Longrightarrow> size (sanitizeFilter v) \<le> size v"
proof (induction v rule: sanitizeFilter.pinduct)
  case 1
  then show ?case by simp
next
  case (2 xs)
  have first: "size (visit sanitizeFilter x) \<le> size x" if "x \<in> set xs" for x
    using 2(2)[OF that] by (auto simp: visit_def)
  have second: "size (visit sanitizeFilter x) \<le> size x"
    if "x \<in> set (map (visit sanitizeFilter) xs)" for x
    using 2(3)[OF that] by (auto simp: visit_def)
  have "size_list size (map (visit sanitizeFilter) (map (visit sanitizeFilter) xs))
        \<le> size_list size (map (visit sanitizeFilter) xs)"
    using second by (rule size_list_map_le)
  also have "\<dots> \<le> size_list size xs" using first by (rule size_list_map_le)
  finally show ?case using 2(1) by (simp add: sanitizeFilter.psimps)
next
  case (3 kvs)
  let ?g = "\<lambda>kv. (fst kv, visit sanitizeFilter (snd kv))"
  have each: "size_prod (\<lambda>x. 0) size (?g kv) \<le> size_prod (\<lambda>x. 0) size kv"
    if "kv \<in> set kvs" for kv
    using 3(2)[OF that] by (cases kv) (auto simp: visit_def)
  have "size (sanitize (JObj (map ?g kvs))) \<le> size (JObj (map ?g kvs))"
    by (rule size_sanitize)
  also have "\<dots> \<le> size (JObj kvs)"
    using size_list_map_le[of kvs "size_prod (\<lambda>x. 0) size" ?g] each by simp
  finally show ?case using 3(1) by (simp add: sanitizeFilter.psimps del: sanitize.simps)
qed (simp_all add: sanitizeFilter.psimps)

termination sanitizeFilter
proof (relation "measure size", goal_cases)
  case 1
  show ?case by simp
next
  case (2 xs x)
  then show ?case using size_member_le[of x xs size] by simp
next
  case (3 xs y)
  then obtain x where x: "x \<in> set xs" "y = visit sanitizeFilter x" by auto
  with 3 have defined: "x \<noteq> JUndefined" by (auto simp: visit_def)
  with 3(3) x have "sanitizeFilter_dom x" by simp
  with defined have "size (sanitizeFilter x) \<le> size x"
    by (simp add: size_sanitizeFilter)
  with x defined size_member_le[of x xs size] show ?case by (simp add: visit_def)
next
  case (4 kvs kv)
  then have "size_prod (\<lambda>x. 0) size kv \<le> size_list (size_prod (\<lambda>x. 0) size) kvs"
    by (simp add: size_member_le)
  moreover have "size (snd kv) \<le> size_prod (\<lambda>x. 0) size kv" by (cases kv) simp
  ultimately show ?case by simp
qed

section \<open>Logger, promises and the native collection\<close>

text \<open>
  The logger is \<^verbatim>\<open>@voliware/logger\<close>: the model keeps every call made to it, in
  order, whatever level the logger prints. \<open>Message\<close> is a call with a text,
  \<open>Value\<close> with a value, \<open>Thrown\<close> with a caught error, and
  \<open>Interpolated\<close> a template text ending in a value.
\<close>

datatype level = Debug | Verbose | Info | Warning | Error

datatype entry =
    Message level string
  | Value level jsval
  | Thrown level error
  | Interpolated level string jsval

text \<open>How the promise that an operation returns is settled.\<close>

datatype promise = Resolved jsval | Rejected error

text \<open>
  The native MongoDB collection belongs to the driver: it is a parameter, the
  function from each call to what the call's promise (or callback) brings back,
  \<open>Inl\<close> a rejection and \<open>Inr\<close> the result. \<open>ToArray\<close> is
  \<^verbatim>\<open>cursor.toArray\<close> on the cursor that \<open>Find\<close> returned.
\<close>

datatype call =
    DeleteOne jsval
  | FindOne jsval jsval
  | Find jsval jsval
  | ToArray jsval
  | CountDocuments jsval jsval
  | InsertOne jsval jsval
  | ReplaceOne jsval jsval jsval
  | UpdateOne jsval jsval jsval
  | DropCollection
  | DeleteMany jsval

type_synonym native = "call \<Rightarrow> error + jsval"

text \<open>
  One run of an operation: the logger calls it made, the calls it submitted to the
  native collection, and how its promise settled.
\<close>

record run =
  logged :: "entry list"
  submitted :: "call list"
  settled :: promise

definition finish :: "entry list \<Rightarrow> call list \<Rightarrow> promise \<Rightarrow> run" where
  "finish l s p = \<lparr>logged = l, submitted = s, settled = p\<rparr>"

text \<open>A default parameter value: taken when the argument is \<^verbatim>\<open>undefined\<close>.\<close>

definition deflt :: "jsval \<Rightarrow> jsval \<Rightarrow> jsval" where
  "deflt d v = (if v = JUndefined then d else v)"

text \<open>The test of \<^verbatim>\<open>if (x)\<close>.\<close>

fun truthy :: "jsval \<Rightarrow> bool" where
  "truthy JUndefined = False"
| "truthy JNull = False"
| "truthy (JBool b) = b"
| "truthy (JNum n) = (n \<noteq> 0)"
| "truthy (JStr s) = (s \<noteq> [])"
| "truthy v = True"

text \<open>
  Reading \<^verbatim>\<open>result.k\<close> for the keys the operations read (counts and the
  inserted identifier): a TypeError on \<^verbatim>\<open>null\<close> and \<^verbatim>\<open>undefined\<close>,
  \<^verbatim>\<open>undefined\<close> where the value has no such property.
\<close>

fun getProp :: "jsval \<Rightarrow> string \<Rightarrow> error + jsval" where
  "getProp JUndefined k = Inl TypeError"
| "getProp JNull k = Inl TypeError"
| "getProp (JObj kvs) k = Inr (case map_of kvs k of None \<Rightarrow> JUndefined | Some v \<Rightarrow> v)"
| "getProp v k = Inr JUndefined"

text \<open>
  \<^verbatim>\<open>delete document._id\<close>: a TypeError on \<^verbatim>\<open>null\<close> and \<^verbatim>\<open>undefined\<close>;
  the key is removed from an object; any other value has no such key.
\<close>

fun deleteProp :: "jsval \<Rightarrow> string \<Rightarrow> error + jsval" where
  "deleteProp JUndefined k = Inl TypeError"
| "deleteProp JNull k = Inl TypeError"
| "deleteProp (JObj kvs) k = Inr (JObj (filter (\<lambda>kv. fst kv \<noteq> k) kvs))"
| "deleteProp v k = Inr v"

section \<open>Collection: the operations\<close>

text \<open>
  Each operation takes the native collection \<open>coll\<close> and the ObjectID
  constructor \<open>c\<close>, then the arguments of the method. An exception thrown in
  an \<^verbatim>\<open>async\<close> method rejects its promise. What processFilter and
  \<^verbatim>\<open>delete\<close> do to the caller's own objects is not part of a run.
\<close>

text \<open>Lines 90-104. The options are logged and not passed on.\<close>

definition deleteDocument :: "native \<Rightarrow> objectid_ctor \<Rightarrow> jsval \<Rightarrow> jsval \<Rightarrow> run" where
  "deleteDocument coll c flt options =
     (let opts = deflt (JObj []) options;
          log = [Message Debug ''Deleting document'', Value Verbose flt, Value Verbose opts]
      in case processFilter c flt of
           (flt', Some e) \<Rightarrow> finish log [] (Rejected e)
         | (flt', None) \<Rightarrow>
             (case coll (DeleteOne flt') of
                Inl e \<Rightarrow> finish log [DeleteOne flt'] (Rejected e)
              | Inr result \<Rightarrow>
                  (case getProp result ''deletedCount'' of
                     Inl e \<Rightarrow> finish log [DeleteOne flt'] (Rejected e)
                   | Inr n \<Rightarrow>
                       if truthy n
                       then finish (log @ [Message Info ''Deleted document''])
                              [DeleteOne flt'] (Resolved (JBool True))
                       else finish (log @ [Message Error ''Failed to delete document''])
                              [DeleteOne flt'] (Resolved (JBool False)))))"

text \<open>Lines 113-126.\<close>

definition getDocument :: "native \<Rightarrow> objectid_ctor \<Rightarrow> jsval \<Rightarrow> jsval \<Rightarrow> run" where
  "getDocument coll c flt options =
     (let opts = deflt (JObj []) options;
          log = [Message Debug ''Getting document'', Value Verbose flt, Value Verbose opts]
      in case processFilter c flt of
           (flt', Some e) \<Rightarrow> finish log [] (Rejected e)
         | (flt', None) \<Rightarrow>
             (case coll (FindOne flt' opts) of
                Inl e \<Rightarrow> finish log [FindOne flt' opts] (Rejected e)
              | Inr item \<Rightarrow>
                  if truthy item
                  then finish (log @ [Message Debug ''Got document''])
                         [FindOne flt' opts] (Resolved item)
                  else finish (log @ [Message Debug ''Failed to find document''])
                         [FindOne flt' opts] (Resolved item)))"

text \<open>
  Lines 136-152. The cursor's \<^verbatim>\<open>toArray\<close> calls back with an error, which
  rejects, or with the documents, which resolve.
\<close>

definition getDocuments :: "native \<Rightarrow> objectid_ctor \<Rightarrow> jsval \<Rightarrow> jsval \<Rightarrow> run" where
  "getDocuments coll c flt options =
     (let flt0 = deflt (JObj []) flt;
          opts = deflt (JObj [(''limit'', JNum 10)]) options;
          log = [Message Debug ''Getting documents'', Value Verbose flt0, Value Verbose opts]
      in case processFilter c flt0 of
           (flt', Some e) \<Rightarrow> finish log [] (Rejected e)
         | (flt', None) \<Rightarrow>
             (case coll (Find flt' opts) of
                Inl e \<Rightarrow> finish log [Find flt' opts] (Rejected e)
              | Inr cursor \<Rightarrow>
                  (case coll (ToArray cursor) of
                     Inl e \<Rightarrow> finish log [Find flt' opts, ToArray cursor] (Rejected e)
                   | Inr result \<Rightarrow>
                       finish log [Find flt' opts, ToArray cursor] (Resolved result))))"

text \<open>Lines 160-164: the filter goes to \<^verbatim>\<open>countDocuments\<close> as it came.\<close>

definition getCount :: "native \<Rightarrow> jsval \<Rightarrow> jsval \<Rightarrow> run" where
  "getCount coll flt options =
     (let flt0 = deflt (JObj []) flt;
          opts = deflt (JObj []) options;
          log = [Message Debug ''Getting document count'', Value Verbose opts]
      in case coll (CountDocuments flt0 opts) of
           Inl e \<Rightarrow> finish log [CountDocuments flt0 opts] (Rejected e)
         | Inr n \<Rightarrow> finish log [CountDocuments flt0 opts] (Resolved n))"

text \<open>Lines 173-185.\<close>

definition insertDocument :: "native \<Rightarrow> jsval \<Rightarrow> jsval \<Rightarrow> run" where
  "insertDocument coll document options =
     (let opts = deflt (JObj []) options;
          log = [Message Debug ''Inserting document'', Value Verbose document, Value Verbose opts]
      in case coll (InsertOne document opts) of
           Inl e \<Rightarrow> finish log [InsertOne document opts] (Rejected e)
         | Inr result \<Rightarrow>
             (case getProp result ''insertedCount'' of
                Inl e \<Rightarrow> finish log [InsertOne document opts] (Rejected e)
              | Inr n \<Rightarrow>
                  if truthy n
                  then (case getProp result ''insertedId'' of
                          Inl e \<Rightarrow> finish log [InsertOne document opts] (Rejected e)
                        | Inr i \<Rightarrow>
                            finish (log @ [Interpolated Info ''Inserted document '' i])
                              [InsertOne document opts] (Resolved result))
                  else finish (log @ [Message Error ''Failed to insert document''])
                         [InsertOne document opts] (Resolved result)))"

text \<open>Lines 195-211. \<^verbatim>\<open>delete document._id\<close> comes first, before any log.\<close>

definition replaceDocument ::
  "native \<Rightarrow> objectid_ctor \<Rightarrow> jsval \<Rightarrow> jsval \<Rightarrow> jsval \<Rightarrow> run" where
  "replaceDocument coll c flt document options =
     (case deleteProp document ''_id'' of
        Inl e \<Rightarrow> finish [] [] (Rejected e)
      | Inr doc \<Rightarrow>
          (let opts = deflt (JObj []) options;
               log = [Message Debug ''Replacing document'', Value Verbose flt,
                      Value Verbose doc, Value Verbose opts]
           in case processFilter c flt of
                (flt', Some e) \<Rightarrow> finish log [] (Rejected e)
              | (flt', None) \<Rightarrow>
                  (case coll (ReplaceOne flt' doc opts) of
                     Inl e \<Rightarrow> finish log [ReplaceOne flt' doc opts] (Rejected e)
                   | Inr result \<Rightarrow>
                       (case getProp result ''modifiedCount'' of
                          Inl e \<Rightarrow> finish log [ReplaceOne flt' doc opts] (Rejected e)
                        | Inr n \<Rightarrow>
                            if truthy n
                            then finish (log @ [Message Info ''Replaced document''])
                                   [ReplaceOne flt' doc opts] (Resolved (JBool True))
                            else finish (log @ [Message Error ''Failed to replace document''])
                                   [ReplaceOne flt' doc opts] (Resolved (JBool False))))))"

text \<open>Lines 221-237.\<close>

definition updateDocument ::
  "native \<Rightarrow> objectid_ctor \<Rightarrow> jsval \<Rightarrow> jsval \<Rightarrow> jsval \<Rightarrow> run" where
  "updateDocument coll c flt update options =
     (case deleteProp update ''_id'' of
        Inl e \<Rightarrow> finish [] [] (Rejected e)
      | Inr upd \<Rightarrow>
          (let opts = deflt (JObj []) options;
               log = [Message Debug ''Updating document'', Value Verbose flt,
                      Value Verbose upd, Value Verbose opts]
           in case processFilter c flt of
                (flt', Some e) \<Rightarrow> finish log [] (Rejected e)
              | (flt', None) \<Rightarrow>
                  (case coll (UpdateOne flt' upd opts) of
                     Inl e \<Rightarrow> finish log [UpdateOne flt' upd opts] (Rejected e)
                   | Inr result \<Rightarrow>
                       (case getProp result ''modifiedCount'' of
                          Inl e \<Rightarrow> finish log [UpdateOne flt' upd opts] (Rejected e)
                        | Inr n \<Rightarrow>
                            if truthy n
                            then finish (log @ [Message Info ''Updated document''])
                                   [UpdateOne flt' upd opts] (Resolved (JBool True))
                            else finish (log @ [Message Warning ''Failed to update document''])
                                   [UpdateOne flt' upd opts] (Resolved (JBool False))))))"

text \<open>
  Lines 243-253. Neither handler returns a value, so the promise resolves with
  \<^verbatim>\<open>undefined\<close> both ways.
\<close>

definition drop_collection :: "native \<Rightarrow> run" where
  "drop_collection coll =
     (let log = [Message Debug ''Dropping collection'']
      in case coll DropCollection of
           Inr result \<Rightarrow>
             finish (log @ [Message Info ''Dropped collection'']) [DropCollection]
               (Resolved JUndefined)
         | Inl err \<Rightarrow>
             finish (log @ [Message Error ''Failed to drop collection'', Thrown Error err])
               [DropCollection] (Resolved JUndefined))"

text \<open>Lines 259-269.\<close>

definition wipe :: "native \<Rightarrow> run" where
  "wipe coll =
     (let log = [Message Debug ''Wiping collection'']
      in case coll (DeleteMany (JObj [])) of
           Inr result \<Rightarrow>
             finish (log @ [Message Info ''Wiped collection'']) [DeleteMany (JObj [])]
               (Resolved JUndefined)
         | Inl err \<Rightarrow>
             finish (log @ [Message Error ''Failed to wipe collection'', Thrown Error err])
               [DeleteMany (JObj [])] (Resolved JUndefined))"

section \<open>Database\<close>

text \<open>
  The MongoDB client and the database handle belong to the driver. The remote
  store has a state, so each reply is a function of the calls made before it.
  A reply of \<^verbatim>\<open>client.connect()\<close> and \<^verbatim>\<open>db.createCollection(name)\<close> is the
  rejection, if any; \<^verbatim>\<open>listCollections().toArray\<close> calls back with an error or
  with the items, of which the model keeps the names.
\<close>

datatype dbcall = Connect | IsConnected | ListCollections | CreateCollection string


text \<open>
  The fields of a Database that initialization reads or writes (lines 39-112).
  \<open>db\<close> is \<^verbatim>\<open>null\<close> or the handle of the named database;
  \<open>collections\<close> is the Map by its keys in insertion order, the Collection under
  a key being the wrapper of the native collection of that name; \<open>logger\<close> holds
  the calls made to the logger and \<open>calls\<close> those made to the driver.
\<close>

record database =
  name :: string
  url :: string
  collection_names :: "string list"
  db :: "string option"
  collections :: "string list"
  logger :: "entry list"
  calls :: "dbcall list"

definition log :: "entry \<Rightarrow> database \<Rightarrow> database" where
  "log e this = this\<lparr>logger := logger this @ [e]\<rparr>"

definition called :: "dbcall \<Rightarrow> database \<Rightarrow> database" where
  "called k this = this\<lparr>calls := calls this @ [k]\<rparr>"

text \<open>\<^verbatim>\<open>this.collections.set(name, collection)\<close>: a key already there keeps its place.\<close>

definition register :: "string \<Rightarrow> database \<Rightarrow> database" where
  "register nm this =
     this\<lparr>collections :=
       (if nm \<in> set (collections this) then collections this else collections this @ [nm])\<rparr>"



text \<open>
  Lines 215-241. With \<^verbatim>\<open>this.db\<close> still \<^verbatim>\<open>null\<close> the call in the executor
  throws, which rejects the promise.
\<close>

definition found :: "database \<Rightarrow> string \<Rightarrow> database" where
  "found this nm = log (Message Debug (''Found collection '' @ nm)) (register nm this)"






section \<open>The properties of the specification, as predicates\<close>

text \<open>
  The value of one operator after coercion, as the specification words it: an
  ordered sequence has become the sequence of the identifiers built from its
  elements, in the same order; any other value is as it was.
\<close>

definition elements_coerced :: "objectid_ctor \<Rightarrow> jsval \<Rightarrow> jsval \<Rightarrow> bool" where
  "elements_coerced c w w' =
     (case w of
        JArr xs \<Rightarrow> (\<exists>is. map c xs = map Some is \<and> w' = JArr (map JOid is))
      | _ \<Rightarrow> w' = w)"

text \<open>
  The value of \<^verbatim>\<open>_id\<close> after coercion: a string has become the identifier built
  from it; in an operator object every operator keeps its place and name and its
  value is coerced as above; the elements of an array are treated like the values
  of operators; any other value is as it was.
\<close>

definition id_coerced :: "objectid_ctor \<Rightarrow> jsval \<Rightarrow> jsval \<Rightarrow> bool" where
  "id_coerced c v v' =
     (case v of
        JStr s \<Rightarrow> (\<exists>i. c (JStr s) = Some i \<and> v' = JOid i)
      | JObj ops \<Rightarrow>
          (\<exists>ops'. v' = JObj ops' \<and>
             list_all2 (\<lambda>p p'. fst p' = fst p \<and> elements_coerced c (snd p) (snd p')) ops ops')
      | JArr vs \<Rightarrow> (\<exists>vs'. v' = JArr vs' \<and> list_all2 (elements_coerced c) vs vs')
      | _ \<Rightarrow> v' = v)"

text \<open>Every key is where it was, and every key other than \<^verbatim>\<open>_id\<close> has its value.\<close>

definition others_kept :: "(string \<times> jsval) list \<Rightarrow> (string \<times> jsval) list \<Rightarrow> bool" where
  "others_kept kvs kvs' =
     list_all2 (\<lambda>kv kv'. fst kv' = fst kv \<and> (fst kv = ''_id'' \<or> snd kv' = snd kv)) kvs kvs'"

text \<open>The same, with the value of \<^verbatim>\<open>_id\<close> coerced.\<close>

definition top_level_id_coerced ::
  "objectid_ctor \<Rightarrow> (string \<times> jsval) list \<Rightarrow> (string \<times> jsval) list \<Rightarrow> bool" where
  "top_level_id_coerced c kvs kvs' =
     list_all2 (\<lambda>kv kv'. fst kv' = fst kv \<and>
       (if fst kv = ''_id'' then id_coerced c (snd kv) (snd kv') else snd kv' = snd kv)) kvs kvs'"

text \<open>
  The constructor accepts every element of the value of one operator, when that
  value is an ordered sequence.
\<close>

definition elements_accepted :: "objectid_ctor \<Rightarrow> jsval \<Rightarrow> bool" where
  "elements_accepted c w = (case w of JArr xs \<Rightarrow> list_all (\<lambda>x. c x \<noteq> None) xs | _ \<Rightarrow> True)"

text \<open>
  The constructor accepts everything processFilter hands it for this value of
  \<^verbatim>\<open>_id\<close>: the string itself, or every element of every sequence-valued
  operator.
\<close>

definition id_accepted :: "objectid_ctor \<Rightarrow> jsval \<Rightarrow> bool" where
  "id_accepted c v =
     (case v of
        JStr s \<Rightarrow> c (JStr s) \<noteq> None
      | JObj ops \<Rightarrow> list_all (\<lambda>p. elements_accepted c (snd p)) ops
      | JArr vs \<Rightarrow> list_all (elements_accepted c) vs
      | _ \<Rightarrow> True)"

text \<open>A key with the reserved prefix, at any depth of objects and arrays.\<close>

fun has_reserved_key :: "jsval \<Rightarrow> bool" where
  "has_reserved_key (JArr xs) = list_ex has_reserved_key xs"
| "has_reserved_key (JObj kvs) =
     list_ex (\<lambda>kv. reserved (fst kv) \<or> has_reserved_key (snd kv)) kvs"
| "has_reserved_key v = False"

text \<open>The value with every reserved key removed, at every depth.\<close>

fun strip_reserved :: "jsval \<Rightarrow> jsval" where
  "strip_reserved (JArr xs) = JArr (map strip_reserved xs)"
| "strip_reserved (JObj kvs) =
     JObj (map (\<lambda>kv. (fst kv, strip_reserved (snd kv)))
            (filter (\<lambda>kv. \<not> reserved (fst kv)) kvs))"
| "strip_reserved v = v"

text \<open>An \<^verbatim>\<open>_id\<close> key at any depth of objects and arrays.\<close>

fun has_id_key :: "jsval \<Rightarrow> bool" where
  "has_id_key (JArr xs) = list_ex has_id_key xs"
| "has_id_key (JObj kvs) = list_ex (\<lambda>kv. fst kv = ''_id'' \<or> has_id_key (snd kv)) kvs"
| "has_id_key v = False"

section \<open>Stores and databases for concrete runs\<close>

text \<open>A store that rejects every call.\<close>

definition failing_store :: native where
  "failing_store k = Inl (OperationFailure ''connection lost'')"

text \<open>A store that hands out a cursor and then fails when the cursor is read.\<close>

definition cursor_failing_store :: native where
  "cursor_failing_store k =
     (case k of
        Find f opts \<Rightarrow> Inr (JObj [])
      | _ \<Rightarrow> Inl (OperationFailure ''cursor lost''))"

text \<open>
  The reply of a store in which the filter matches one document and the write
  leaves that document as it was: one matched, none modified.
\<close>

definition unchanged_store :: native where
  "unchanged_store k = Inr (JObj [(''matchedCount'', JNum 1), (''modifiedCount'', JNum 0)])"

text \<open>The reply of a store in which one document is matched and written.\<close>

definition modifying_store :: native where
  "modifying_store k =
     Inr (JObj [(''matchedCount'', JNum 1), (''modifiedCount'', JNum 1),
                (''deletedCount'', JNum 1)])"




section \<open>processFilter: proofs\<close>

lemma coerceId_simps:
  "coerceId c (JStr s) =
     (case c (JStr s) of
        None \<Rightarrow> (JStr s, Some InvalidIdentifierFormat)
      | Some i \<Rightarrow> (JOid i, None))"
  "coerceId c (JObj ps) = coerceObject c (JObj ps)"
  "coerceId c (JArr vs) = coerceObject c (JArr vs)"
  "coerceId c (JOid i) = (JOid i, None)"
  "coerceId c JNull = (JNull, None)"
  "coerceId c JUndefined = (JUndefined, None)"
  "coerceId c (JNum n) = (JNum n, None)"
  "coerceId c (JBool b) = (JBool b, None)"
  by (simp_all add: coerceId_def)

lemma processKeys_no_id:
  "''_id'' \<notin> fst ` set kvs \<Longrightarrow> processKeys c kvs = (kvs, None)"
  by (induction kvs) auto

text \<open>
  With each key once, the loop over the keys comes to what the \<^verbatim>\<open>switch\<close> does
  to the one value of \<^verbatim>\<open>_id\<close>, thrown exception included.
\<close>

lemma processKeys_at_id:
  "distinct (map fst kvs) \<Longrightarrow> map_of kvs ''_id'' = Some v \<Longrightarrow>
   processKeys c kvs =
     (map (\<lambda>(k, w). (k, if k = ''_id'' then fst (coerceId c v) else w)) kvs, snd (coerceId c v))"
proof (induction kvs)
  case Nil
  then show ?case by simp
next
  case (Cons kv kvs)
  obtain k w where kv: "kv = (k, w)" by (cases kv)
  show ?case
  proof (cases "k = ''_id''")
    case True
    with Cons.prems kv have v: "w = v" and notin: "''_id'' \<notin> fst ` set kvs" by auto
    have same: "map (\<lambda>(k, w). (k, if k = ''_id'' then fst (coerceId c v) else w)) kvs = kvs"
      using notin by (induction kvs) auto
    show ?thesis using True kv v same processKeys_no_id[OF notin, of c]
      by (cases "coerceId c v") (auto split: option.splits)
  next
    case False
    with Cons.prems kv have "distinct (map fst kvs)" "map_of kvs ''_id'' = Some v" by auto
    from Cons.IH[OF this] show ?thesis using False kv by simp
  qed
qed

lemma map_same_value:
  "distinct (map fst kvs) \<Longrightarrow> map_of kvs k = Some v \<Longrightarrow>
   map (\<lambda>(k', w). (k', if k' = k then v else w)) kvs = kvs"
proof (induction kvs)
  case Nil
  then show ?case by simp
next
  case (Cons kv kvs)
  obtain k' w where kv: "kv = (k', w)" by (cases kv)
  show ?case
  proof (cases "k' = k")
    case True
    with Cons.prems kv have "w = v" "k \<notin> fst ` set kvs" by auto
    then have "map (\<lambda>(k', w). (k', if k' = k then v else w)) kvs = kvs"
      by (induction kvs) auto
    with True kv \<open>w = v\<close> show ?thesis by simp
  next
    case False
    with Cons kv show ?thesis by auto
  qed
qed

lemma processFilter_at_id:
  assumes "distinct (map fst kvs)" and "map_of kvs ''_id'' = Some v" and "coerceId c v = (v', r)"
  shows "processFilter c (JObj kvs) =
           (JObj (map (\<lambda>(k, w). (k, if k = ''_id'' then v' else w)) kvs), r)"
proof -
  have fs: "fst (coerceId c v) = v'" "snd (coerceId c v) = r" using assms(3) by simp_all
  show ?thesis using processKeys_at_id[OF assms(1,2), of c] unfolding fs by simp
qed

lemma processFilter_id_kept:
  assumes "distinct (map fst kvs)" and "map_of kvs ''_id'' = Some v" and "coerceId c v = (v, r)"
  shows "processFilter c (JObj kvs) = (JObj kvs, r)"
  using processFilter_at_id[OF assms] map_same_value[OF assms(1,2)] by simp

lemma map_of_set_id:
  "map_of kvs ''_id'' = Some v \<Longrightarrow>
   map_of (map (\<lambda>(k, w). (k, if k = ''_id'' then v' else w)) kvs) ''_id'' = Some v'"
  by (induction kvs) (auto split: if_splits)

lemma coerceElements_ok:
  "coerceElements c xs = (ys, None) \<Longrightarrow>
   \<exists>is. map c xs = map Some is \<and> ys = map JOid is"
proof (induction xs arbitrary: ys)
  case Nil
  then show ?case by simp
next
  case (Cons x xs)
  then obtain i where i: "c x = Some i" by (cases "c x") auto
  obtain zs r where zs: "coerceElements c xs = (zs, r)" by (cases "coerceElements c xs")
  with Cons.prems i have r: "r = None" and ys: "ys = JOid i # zs" by auto
  from Cons.IH[of zs] zs r obtain js where "map c xs = map Some js" "zs = map JOid js" by auto
  then have "map c (x # xs) = map Some (i # js) \<and> ys = map JOid (i # js)"
    using i ys by simp
  then show ?case by blast
qed

lemma coerceIfArray_ok:
  assumes "coerceIfArray c v = (v', None)"
  shows "elements_coerced c v v'"
proof (cases v)
  case (JArr xs)
  with assms obtain ys where "coerceElements c xs = (ys, None)" "v' = JArr ys"
    by (cases "coerceElements c xs") auto
  with coerceElements_ok[of c xs ys] JArr show ?thesis by (auto simp: elements_coerced_def)
qed (use assms in \<open>auto simp: elements_coerced_def\<close>)

lemma coerceProperties_ok:
  "coerceProperties c ps = (ps', None) \<Longrightarrow>
   list_all2 (\<lambda>p p'. fst p' = fst p \<and> elements_coerced c (snd p) (snd p')) ps ps'"
proof (induction ps arbitrary: ps')
  case Nil
  then show ?case by simp
next
  case (Cons p ps)
  obtain k2 v where p: "p = (k2, v)" by (cases p)
  obtain v' r where v': "coerceIfArray c v = (v', r)" by (cases "coerceIfArray c v")
  obtain qs r2 where qs: "coerceProperties c ps = (qs, r2)" by (cases "coerceProperties c ps")
  from Cons.prems p v' qs have r: "r = None" and r2: "r2 = None" and ps': "ps' = (k2, v') # qs"
    by (auto split: option.splits)
  have "elements_coerced c v v'" using coerceIfArray_ok v' r by simp
  moreover have "list_all2 (\<lambda>p p'. fst p' = fst p \<and> elements_coerced c (snd p) (snd p')) ps qs"
    using Cons.IH qs r2 by simp
  ultimately show ?case using p ps' by simp
qed

lemma coerceItems_ok:
  "coerceItems c vs = (vs', None) \<Longrightarrow> list_all2 (elements_coerced c) vs vs'"
proof (induction vs arbitrary: vs')
  case Nil
  then show ?case by simp
next
  case (Cons v vs)
  obtain v' r where v': "coerceIfArray c v = (v', r)" by (cases "coerceIfArray c v")
  obtain qs r2 where qs: "coerceItems c vs = (qs, r2)" by (cases "coerceItems c vs")
  from Cons.prems v' qs have r: "r = None" and r2: "r2 = None" and vs': "vs' = v' # qs"
    by (auto split: option.splits)
  have "elements_coerced c v v'" using coerceIfArray_ok v' r by simp
  moreover have "list_all2 (elements_coerced c) vs qs" using Cons.IH qs r2 by simp
  ultimately show ?case using vs' by simp
qed

lemma coerceId_ok:
  assumes "coerceId c v = (v', None)"
  shows "id_coerced c v v'"
proof (cases v)
  case (JStr s)
  with assms show ?thesis by (auto simp: id_coerced_def coerceId_simps split: option.splits)
next
  case (JObj ps)
  with assms obtain ps' where "coerceProperties c ps = (ps', None)" "v' = JObj ps'"
    by (cases "coerceProperties c ps") (auto simp: coerceId_simps)
  with coerceProperties_ok[of c ps ps'] JObj show ?thesis by (simp add: id_coerced_def)
next
  case (JArr vs)
  with assms obtain vs' where "coerceItems c vs = (vs', None)" "v' = JArr vs'"
    by (cases "coerceItems c vs") (auto simp: coerceId_simps)
  with coerceItems_ok[of c vs vs'] JArr show ?thesis by (simp add: id_coerced_def)
qed (use assms in \<open>auto simp: id_coerced_def coerceId_simps\<close>)

lemma processKeys_others_kept: "processKeys c kvs = (kvs', r) \<Longrightarrow> others_kept kvs kvs'"
proof (induction kvs arbitrary: kvs' r)
  case Nil
  then show ?case by (simp add: others_kept_def)
next
  case (Cons kv kvs)
  obtain k v where kv: "kv = (k, v)" by (cases kv)
  obtain qs r2 where qs: "processKeys c kvs = (qs, r2)" by (cases "processKeys c kvs")
  have refl: "others_kept kvs kvs" by (simp add: others_kept_def list_all2_same)
  from Cons.IH[OF qs] have ih: "others_kept kvs qs" .
  obtain v' r1 where v': "coerceId c v = (v', r1)" by (cases "coerceId c v")
  show ?case using Cons.prems kv qs v' ih refl
    by (auto simp: others_kept_def split: if_splits option.splits)
qed

lemma processKeys_ok:
  "processKeys c kvs = (kvs', None) \<Longrightarrow> top_level_id_coerced c kvs kvs'"
proof (induction kvs arbitrary: kvs')
  case Nil
  then show ?case by (simp add: top_level_id_coerced_def)
next
  case (Cons kv kvs)
  obtain k v where kv: "kv = (k, v)" by (cases kv)
  obtain qs r2 where qs: "processKeys c kvs = (qs, r2)" by (cases "processKeys c kvs")
  obtain v' r1 where v': "coerceId c v = (v', r1)" by (cases "coerceId c v")
  from Cons.prems kv qs v' have r2: "r2 = None"
    by (auto split: if_splits option.splits)
  with Cons.IH qs have ih: "top_level_id_coerced c kvs qs" by simp
  show ?case
  proof (cases "k = ''_id''")
    case True
    with Cons.prems kv qs v' have "r1 = None" "kvs' = (k, v') # qs"
      by (auto split: option.splits)
    with v' coerceId_ok[of c v v'] ih True kv show ?thesis
      by (simp add: top_level_id_coerced_def)
  next
    case False
    with Cons.prems kv qs have "kvs' = (k, v) # qs" by auto
    with ih False kv show ?thesis by (simp add: top_level_id_coerced_def)
  qed
qed

text \<open>
  processFilter returns, throwing nothing, exactly when the constructor accepts
  everything it is handed.
\<close>

lemma coerceElements_returns:
  "(snd (coerceElements c xs) = None) = list_all (\<lambda>x. c x \<noteq> None) xs"
  by (induction xs) (auto split: option.splits prod.splits)

lemma coerceIfArray_returns:
  "(snd (coerceIfArray c v) = None) = elements_accepted c v"
proof (cases v)
  case (JArr xs)
  obtain ys r where ys: "coerceElements c xs = (ys, r)" by (cases "coerceElements c xs")
  with coerceElements_returns[of c xs] have "(r = None) = list_all (\<lambda>x. c x \<noteq> None) xs"
    by simp
  with JArr ys show ?thesis by (simp add: elements_accepted_def)
qed (simp_all add: elements_accepted_def)

lemma coerceProperties_returns:
  "(snd (coerceProperties c ps) = None) = list_all (\<lambda>p. elements_accepted c (snd p)) ps"
proof (induction ps)
  case Nil
  then show ?case by simp
next
  case (Cons p ps)
  obtain k2 v where p: "p = (k2, v)" by (cases p)
  obtain v' r where v': "coerceIfArray c v = (v', r)" by (cases "coerceIfArray c v")
  with coerceIfArray_returns[of c v] have "(r = None) = elements_accepted c v" by simp
  with Cons p v' show ?case by (cases r) (auto split: prod.splits)
qed

lemma coerceItems_returns:
  "(snd (coerceItems c vs) = None) = list_all (elements_accepted c) vs"
proof (induction vs)
  case Nil
  then show ?case by simp
next
  case (Cons v vs)
  obtain v' r where v': "coerceIfArray c v = (v', r)" by (cases "coerceIfArray c v")
  with coerceIfArray_returns[of c v] have "(r = None) = elements_accepted c v" by simp
  with Cons v' show ?case by (cases r) (auto split: prod.splits)
qed

lemma coerceId_returns: "(snd (coerceId c v) = None) = id_accepted c v"
proof (cases v)
  case (JObj ps)
  with coerceProperties_returns[of c ps] show ?thesis
    by (auto simp: coerceId_simps id_accepted_def split: prod.splits)
next
  case (JArr vs)
  with coerceItems_returns[of c vs] show ?thesis
    by (auto simp: coerceId_simps id_accepted_def split: prod.splits)
qed (auto simp: coerceId_simps id_accepted_def split: option.splits)

lemma processKeys_returns:
  "(snd (processKeys c kvs) = None)
     = list_all (\<lambda>kv. fst kv = ''_id'' \<longrightarrow> id_accepted c (snd kv)) kvs"
proof (induction kvs)
  case Nil
  then show ?case by simp
next
  case (Cons kv kvs)
  obtain k v where kv: "kv = (k, v)" by (cases kv)
  obtain v' r where v': "coerceId c v = (v', r)" by (cases "coerceId c v")
  with coerceId_returns[of c v] have "(r = None) = id_accepted c v" by simp
  with Cons kv v' show ?case by (cases r) (auto split: prod.splits)
qed

text \<open>
  C5. Whatever processFilter does to a filter object, thrown exception or not,
  every key stays in its place and every key other than \<^verbatim>\<open>_id\<close> keeps its value,
  sub-filters under other names included. It returns exactly when the constructor
  accepts the string, or every element of every array-valued operator, of a
  top-level \<^verbatim>\<open>_id\<close>; and then that \<^verbatim>\<open>_id\<close> is coerced: a string is the
  identifier built from it; in an operator object each array-valued operator holds
  the identifiers built from its elements, in order, and any other operator value
  is untouched.
\<close>

theorem processFilter_only_top_level_id:
  assumes "processFilter c (JObj kvs) = (flt', r)"
  shows "\<exists>kvs'. flt' = JObj kvs' \<and> others_kept kvs kvs' \<and>
           ((r = None) = list_all (\<lambda>kv. fst kv = ''_id'' \<longrightarrow> id_accepted c (snd kv)) kvs) \<and>
           (r = None \<longrightarrow> top_level_id_coerced c kvs kvs')"
proof -
  obtain kvs' r' where pk: "processKeys c kvs = (kvs', r')" by (cases "processKeys c kvs")
  with assms have eq: "flt' = JObj kvs'" "r' = r" by auto
  from pk eq processKeys_returns[of c kvs]
  have "(r = None) = list_all (\<lambda>kv. fst kv = ''_id'' \<longrightarrow> id_accepted c (snd kv)) kvs" by simp
  with eq pk processKeys_others_kept[of c kvs kvs' r] processKeys_ok[of c kvs kvs']
  show ?thesis by auto
qed

theorem processFilter_only_top_level_id_witness:
  "processFilter hexObjectID (JObj
     [(''owner'', JObj [(''_id'', JStr ''7'')]),
      (''_id'', JObj [(''$in'', JArr [JStr ''0123456789abcdef01234567'',
                                       JStr ''89abcdef0123456789abcdef'']),
                      (''$ne'', JStr ''0123456789abcdef01234567'')])])
    = (JObj [(''owner'', JObj [(''_id'', JStr ''7'')]),
      (''_id'', JObj [(''$in'', JArr [JOid ''0123456789abcdef01234567'',
                                       JOid ''89abcdef0123456789abcdef'']),
                      (''$ne'', JStr ''0123456789abcdef01234567'')])], None) \<and>
   others_kept
     [(''owner'', JObj [(''_id'', JStr ''7'')]),
      (''_id'', JObj [(''$in'', JArr [JStr ''0123456789abcdef01234567'',
                                       JStr ''89abcdef0123456789abcdef'']),
                      (''$ne'', JStr ''0123456789abcdef01234567'')])]
     [(''owner'', JObj [(''_id'', JStr ''7'')]),
      (''_id'', JObj [(''$in'', JArr [JOid ''0123456789abcdef01234567'',
                                       JOid ''89abcdef0123456789abcdef'']),
                      (''$ne'', JStr ''0123456789abcdef01234567'')])] \<and>
   id_accepted hexObjectID
     (JObj [(''$in'', JArr [JStr ''0123456789abcdef01234567'',
                            JStr ''89abcdef0123456789abcdef'']),
            (''$ne'', JStr ''0123456789abcdef01234567'')]) \<and>
   top_level_id_coerced hexObjectID
     [(''owner'', JObj [(''_id'', JStr ''7'')]),
      (''_id'', JObj [(''$in'', JArr [JStr ''0123456789abcdef01234567'',
                                       JStr ''89abcdef0123456789abcdef'']),
                      (''$ne'', JStr ''0123456789abcdef01234567'')])]
     [(''owner'', JObj [(''_id'', JStr ''7'')]),
      (''_id'', JObj [(''$in'', JArr [JOid ''0123456789abcdef01234567'',
                                       JOid ''89abcdef0123456789abcdef'']),
                      (''$ne'', JStr ''0123456789abcdef01234567'')])]"
proof -
  have run: "processFilter hexObjectID (JObj
     [(''owner'', JObj [(''_id'', JStr ''7'')]),
      (''_id'', JObj [(''$in'', JArr [JStr ''0123456789abcdef01234567'',
                                       JStr ''89abcdef0123456789abcdef'']),
                      (''$ne'', JStr ''0123456789abcdef01234567'')])])
    = (JObj [(''owner'', JObj [(''_id'', JStr ''7'')]),
      (''_id'', JObj [(''$in'', JArr [JOid ''0123456789abcdef01234567'',
                                       JOid ''89abcdef0123456789abcdef'']),
                      (''$ne'', JStr ''0123456789abcdef01234567'')])], None)"
    by (simp add: coerceId_def is_hex_def)
  from processFilter_only_top_level_id[OF run] run show ?thesis by simp
qed

text \<open>
  C8. When the top-level \<^verbatim>\<open>_id\<close> of a filter is a string that the ObjectID
  constructor refuses, processFilter throws InvalidIdentifierFormat and the filter
  is left exactly as it was, every field of it.
\<close>

theorem processFilter_invalid_id_string:
  assumes "distinct (map fst kvs)"
    and "map_of kvs ''_id'' = Some (JStr s)"
    and "c (JStr s) = None"
  shows "processFilter c (JObj kvs) = (JObj kvs, Some InvalidIdentifierFormat)"
proof -
  have "coerceId c (JStr s) = (JStr s, Some InvalidIdentifierFormat)"
    using assms(3) by (simp add: coerceId_def)
  with processFilter_id_kept[OF assms(1,2)] show ?thesis .
qed

theorem processFilter_invalid_id_string_witness:
  "processFilter hexObjectID
     (JObj [(''age'', JNum 3), (''_id'', JStr ''not-an-id''), (''tags'', JArr [JStr ''a''])])
     = (JObj [(''age'', JNum 3), (''_id'', JStr ''not-an-id''), (''tags'', JArr [JStr ''a''])],
        Some InvalidIdentifierFormat)"
  using processFilter_invalid_id_string
    [of "[(''age'', JNum 3), (''_id'', JStr ''not-an-id''), (''tags'', JArr [JStr ''a''])]"
        "''not-an-id''" hexObjectID]
  by simp

text \<open>
  C9. When the top-level \<^verbatim>\<open>_id\<close> of a filter is a string that the ObjectID
  constructor accepts, processFilter returns the filter with \<^verbatim>\<open>_id\<close> set to the
  identifier built from that string and nothing else changed; and on a filter
  whose \<^verbatim>\<open>_id\<close> is an identifier already, processFilter changes nothing.
\<close>

theorem processFilter_valid_id_string:
  assumes "distinct (map fst kvs)"
  shows "(map_of kvs ''_id'' = Some (JStr s) \<and> c (JStr s) = Some i \<longrightarrow>
            processFilter c (JObj kvs) =
              (JObj (map (\<lambda>(k, w). (k, if k = ''_id'' then JOid i else w)) kvs), None) \<and>
            map_of (map (\<lambda>(k, w). (k, if k = ''_id'' then JOid i else w)) kvs) ''_id''
              = Some (JOid i)) \<and>
         (map_of kvs ''_id'' = Some (JOid j) \<longrightarrow> processFilter c (JObj kvs) = (JObj kvs, None))"
proof (intro conjI impI)
  assume a: "map_of kvs ''_id'' = Some (JStr s) \<and> c (JStr s) = Some i"
  then have "coerceId c (JStr s) = (JOid i, None)" by (simp add: coerceId_def)
  with processFilter_at_id[OF assms, of "JStr s" c "JOid i" None] a
  show "processFilter c (JObj kvs) =
          (JObj (map (\<lambda>(k, w). (k, if k = ''_id'' then JOid i else w)) kvs), None)" by simp
  from a map_of_set_id[of kvs "JStr s" "JOid i"]
  show "map_of (map (\<lambda>(k, w). (k, if k = ''_id'' then JOid i else w)) kvs) ''_id''
          = Some (JOid i)" by simp
next
  assume a: "map_of kvs ''_id'' = Some (JOid j)"
  have "coerceId c (JOid j) = (JOid j, None)" by (simp add: coerceId_def)
  with processFilter_id_kept[OF assms a] show "processFilter c (JObj kvs) = (JObj kvs, None)" .
qed

theorem processFilter_valid_id_string_witness:
  "processFilter hexObjectID
     (JObj [(''_id'', JStr ''0123456789abcdef01234567''), (''age'', JNum 3)])
     = (JObj [(''_id'', JOid ''0123456789abcdef01234567''), (''age'', JNum 3)], None) \<and>
   processFilter hexObjectID
     (JObj [(''_id'', JOid ''0123456789abcdef01234567''), (''age'', JNum 3)])
     = (JObj [(''_id'', JOid ''0123456789abcdef01234567''), (''age'', JNum 3)], None)"
  using processFilter_valid_id_string
    [of "[(''_id'', JStr ''0123456789abcdef01234567''), (''age'', JNum 3)]"
        "''0123456789abcdef01234567''" hexObjectID "''0123456789abcdef01234567''" "[]"]
    processFilter_valid_id_string
    [of "[(''_id'', JOid ''0123456789abcdef01234567''), (''age'', JNum 3)]"
        "[]" hexObjectID "[]" "''0123456789abcdef01234567''"]
  by (simp add: is_hex_def)

text \<open>
  C10. When the top-level \<^verbatim>\<open>_id\<close> of a filter is a value whose \<^verbatim>\<open>typeof\<close> is
  neither \<^verbatim>\<open>'string'\<close> nor \<^verbatim>\<open>'object'\<close> (a number, a boolean,
  \<^verbatim>\<open>undefined\<close>), processFilter returns the filter unchanged and throws nothing.
\<close>

theorem processFilter_other_id_unchanged:
  assumes "distinct (map fst kvs)"
    and "map_of kvs ''_id'' = Some v"
    and "typeof v \<noteq> ''string''" and "typeof v \<noteq> ''object''"
  shows "processFilter c (JObj kvs) = (JObj kvs, None)"
proof -
  have "coerceId c v = (v, None)" using assms(3,4) by (simp add: coerceId_def)
  with processFilter_id_kept[OF assms(1,2)] show ?thesis .
qed

theorem processFilter_other_id_unchanged_witness:
  "processFilter hexObjectID (JObj [(''_id'', JNum 42), (''live'', JBool True)])
     = (JObj [(''_id'', JNum 42), (''live'', JBool True)], None) \<and>
   processFilter hexObjectID (JObj [(''_id'', JBool False)])
     = (JObj [(''_id'', JBool False)], None)"
  using processFilter_other_id_unchanged
      [of "[(''_id'', JNum 42), (''live'', JBool True)]" "JNum 42" hexObjectID]
    processFilter_other_id_unchanged[of "[(''_id'', JBool False)]" "JBool False" hexObjectID]
  by simp

section \<open>sanitizeFilter: proofs\<close>

lemma filter_map_reserved:
  "filter (\<lambda>kv. \<not> reserved (fst kv)) (map (\<lambda>kv. (fst kv, f (snd kv))) ys)
     = map (\<lambda>kv. (fst kv, f (snd kv))) (filter (\<lambda>kv. \<not> reserved (fst kv)) ys)"
  by (induction ys) auto

lemma strip_reserved_idem: "strip_reserved (strip_reserved v) = strip_reserved v"
proof (induction v rule: strip_reserved.induct)
  case (1 xs)
  then show ?case by simp
next
  case (2 kvs)
  then show ?case by (simp add: filter_map_reserved comp_def)
qed simp_all

lemma strip_reserved_clean: "\<not> has_reserved_key (strip_reserved v)"
  by (induction v rule: strip_reserved.induct) (auto simp: list_ex_iff)

text \<open>
  What sanitizeFilter returns for a value other than \<^verbatim>\<open>undefined\<close>: the second
  visit of an array's elements finds them stripped already.
\<close>

lemma sanitizeFilter_strip: "v \<noteq> JUndefined \<Longrightarrow> sanitizeFilter v = strip_reserved v"
proof (induction v rule: sanitizeFilter.induct)
  case 1
  then show ?case by simp
next
  case (2 xs)
  have first: "visit sanitizeFilter x = strip_reserved x" if "x \<in> set xs" for x
    using 2(1)[OF that] by (cases "x = JUndefined") (simp_all add: visit_def)
  then have pass1: "map (visit sanitizeFilter) xs = map strip_reserved xs" by simp
  have second: "visit sanitizeFilter y = strip_reserved y"
    if "y \<in> set (map strip_reserved xs)" for y
    using 2(2)[of y] that pass1 by (cases "y = JUndefined") (simp_all add: visit_def)
  then have "map (visit sanitizeFilter) (map strip_reserved xs)
               = map strip_reserved (map strip_reserved xs)"
    by (intro map_cong) simp_all
  then show ?case using pass1 by (simp add: strip_reserved_idem comp_def)
next
  case (3 kvs)
  have each: "visit sanitizeFilter (snd kv) = strip_reserved (snd kv)" if "kv \<in> set kvs" for kv
    using 3(1)[OF that] by (cases "snd kv = JUndefined") (simp_all add: visit_def)
  then have m: "map (\<lambda>kv. (fst kv, visit sanitizeFilter (snd kv))) kvs
                  = map (\<lambda>kv. (fst kv, strip_reserved (snd kv))) kvs" by simp
  show ?case unfolding sanitizeFilter.simps m by (simp add: filter_map_reserved)
qed simp_all

lemma sanitizeFilter_as_strip:
  "sanitizeFilter v = strip_reserved (if v = JUndefined then JObj [] else v)"
  using sanitizeFilter_strip by simp

text \<open>
  C6. For every value, however deep its objects and arrays nest, sanitizeFilter
  returns that value (the empty object for \<^verbatim>\<open>undefined\<close>) with the keys
  beginning with \<^verbatim>\<open>$\<close> removed at every depth and nothing else changed; the
  result has no such key at any depth, and sanitizeFilter applied to the result
  returns it unchanged.
\<close>

theorem sanitizeFilter_removes_reserved_keys:
  "sanitizeFilter v = strip_reserved (if v = JUndefined then JObj [] else v) \<and>
   \<not> has_reserved_key (sanitizeFilter v) \<and>
   sanitizeFilter (sanitizeFilter v) = sanitizeFilter v"
proof -
  have "sanitizeFilter v \<noteq> JUndefined" by (cases v) (simp_all add: sanitizeFilter_as_strip)
  then show ?thesis
    using sanitizeFilter_strip[of "sanitizeFilter v"]
    by (simp add: sanitizeFilter_as_strip strip_reserved_clean strip_reserved_idem)
qed

theorem sanitizeFilter_removes_reserved_keys_witness:
  "sanitizeFilter (JObj [(''a'', JObj [(''$where'', JStr ''1'')]),
                         (''b'', JArr [JObj [(''$gt'', JNum 1), (''c'', JNull)]])])
     = JObj [(''a'', JObj []), (''b'', JArr [JObj [(''c'', JNull)]])] \<and>
   \<not> has_reserved_key (JObj [(''a'', JObj []), (''b'', JArr [JObj [(''c'', JNull)]])]) \<and>
   sanitizeFilter (JObj [(''a'', JObj []), (''b'', JArr [JObj [(''c'', JNull)]])])
     = JObj [(''a'', JObj []), (''b'', JArr [JObj [(''c'', JNull)]])]"
proof -
  have run: "sanitizeFilter (JObj [(''a'', JObj [(''$where'', JStr ''1'')]),
                                   (''b'', JArr [JObj [(''$gt'', JNum 1), (''c'', JNull)]])])
               = JObj [(''a'', JObj []), (''b'', JArr [JObj [(''c'', JNull)]])]"
    by (simp add: visit_def reserved_def)
  have after:
    "\<not> has_reserved_key (JObj [(''a'', JObj []), (''b'', JArr [JObj [(''c'', JNull)]])]) \<and>
     sanitizeFilter (JObj [(''a'', JObj []), (''b'', JArr [JObj [(''c'', JNull)]])])
       = JObj [(''a'', JObj []), (''b'', JArr [JObj [(''c'', JNull)]])]"
    using sanitizeFilter_removes_reserved_keys
         [of "JObj [(''a'', JObj [(''$where'', JStr ''1'')]),
                    (''b'', JArr [JObj [(''$gt'', JNum 1), (''c'', JNull)]])]"]
    unfolding run by (rule conjunct2)
  from run after show ?thesis by (rule conjI)
qed

section \<open>Collection operations: proofs\<close>

lemma run_simps [simp]:
  "logged (finish l s p) = l" "submitted (finish l s p) = s" "settled (finish l s p) = p"
  by (simp_all add: finish_def)

text \<open>
  Five of the six operations that take a filter submit what processFilter
  returned for it.
\<close>

lemma filter_operations_submit_processed_filter:
  assumes "processFilter c flt = (flt', None)"
  shows "submitted (deleteDocument coll c flt options) = [DeleteOne flt']"
    and "submitted (getDocument coll c flt options) = [FindOne flt' (deflt (JObj []) options)]"
    and "deleteProp document ''_id'' = Inr doc \<Longrightarrow>
         submitted (replaceDocument coll c flt document options)
           = [ReplaceOne flt' doc (deflt (JObj []) options)]"
    and "deleteProp document ''_id'' = Inr doc \<Longrightarrow>
         submitted (updateDocument coll c flt document options)
           = [UpdateOne flt' doc (deflt (JObj []) options)]"
  using assms
  by (simp_all add: deleteDocument_def getDocument_def replaceDocument_def updateDocument_def
      Let_def split: sum.splits)

lemma getDocuments_submits_processed_filter:
  assumes "processFilter c (deflt (JObj []) flt) = (flt', None)"
  shows "hd (submitted (getDocuments coll c flt options))
           = Find flt' (deflt (JObj [(''limit'', JNum 10)]) options)"
  using assms by (simp add: getDocuments_def Let_def split: sum.splits)

text \<open>
  C1, as the specification states it, fails: with a store that rejects,
  deleteDocument rejects with the store's error instead of resolving with
  \<^verbatim>\<open>false\<close>, and drop resolves with \<^verbatim>\<open>undefined\<close>, not \<^verbatim>\<open>false\<close>.
\<close>

theorem store_failure_counterexample:
  "settled (deleteDocument failing_store hexObjectID (JObj [(''name'', JStr ''a'')]) JUndefined)
     = Rejected (OperationFailure ''connection lost'') \<and>
   settled (drop_collection failing_store) = Resolved JUndefined"
  by (simp add: deleteDocument_def drop_collection_def failing_store_def deflt_def)

text \<open>
  C1, amended. A failure of the remote store during deleteDocument,
  replaceDocument or updateDocument rejects the operation's promise with that
  failure, after the entry logs only. insertDocument, getDocument, getDocuments
  (a failing find as well as a failing cursor, the default filter included) and
  getCount do exactly the same: the entry logs, the call, the rejection. During drop
  and wipe the failure is caught: an error message and the error are logged and
  the promise resolves with \<^verbatim>\<open>undefined\<close>.
\<close>

theorem store_failure:
  assumes "processFilter c flt = (flt', None)"
    and "processFilter c (deflt (JObj []) flt) = (flt0', None)"
  shows
   "(coll (DeleteOne flt') = Inl e \<longrightarrow>
       deleteDocument coll c flt options =
         finish [Message Debug ''Deleting document'', Value Verbose flt,
                 Value Verbose (deflt (JObj []) options)]
           [DeleteOne flt'] (Rejected e)) \<and>
    (deleteProp document ''_id'' = Inr doc \<and>
     coll (ReplaceOne flt' doc (deflt (JObj []) options)) = Inl e \<longrightarrow>
       replaceDocument coll c flt document options =
         finish [Message Debug ''Replacing document'', Value Verbose flt, Value Verbose doc,
                 Value Verbose (deflt (JObj []) options)]
           [ReplaceOne flt' doc (deflt (JObj []) options)] (Rejected e)) \<and>
    (deleteProp document ''_id'' = Inr doc \<and>
     coll (UpdateOne flt' doc (deflt (JObj []) options)) = Inl e \<longrightarrow>
       updateDocument coll c flt document options =
         finish [Message Debug ''Updating document'', Value Verbose flt, Value Verbose doc,
                 Value Verbose (deflt (JObj []) options)]
           [UpdateOne flt' doc (deflt (JObj []) options)] (Rejected e)) \<and>
    (coll DropCollection = Inl e \<longrightarrow>
       drop_collection coll =
         finish [Message Debug ''Dropping collection'',
                 Message Error ''Failed to drop collection'', Thrown Error e]
           [DropCollection] (Resolved JUndefined)) \<and>
    (coll (DeleteMany (JObj [])) = Inl e \<longrightarrow>
       wipe coll =
         finish [Message Debug ''Wiping collection'',
                 Message Error ''Failed to wipe collection'', Thrown Error e]
           [DeleteMany (JObj [])] (Resolved JUndefined)) \<and>
    (coll (InsertOne document (deflt (JObj []) options)) = Inl e \<longrightarrow>
       insertDocument coll document options =
         finish [Message Debug ''Inserting document'', Value Verbose document,
                 Value Verbose (deflt (JObj []) options)]
           [InsertOne document (deflt (JObj []) options)] (Rejected e)) \<and>
    (coll (FindOne flt' (deflt (JObj []) options)) = Inl e \<longrightarrow>
       getDocument coll c flt options =
         finish [Message Debug ''Getting document'', Value Verbose flt,
                 Value Verbose (deflt (JObj []) options)]
           [FindOne flt' (deflt (JObj []) options)] (Rejected e)) \<and>
    (coll (Find flt0' (deflt (JObj [(''limit'', JNum 10)]) options)) = Inl e \<longrightarrow>
       getDocuments coll c flt options =
         finish [Message Debug ''Getting documents'', Value Verbose (deflt (JObj []) flt),
                 Value Verbose (deflt (JObj [(''limit'', JNum 10)]) options)]
           [Find flt0' (deflt (JObj [(''limit'', JNum 10)]) options)] (Rejected e)) \<and>
    (coll (Find flt0' (deflt (JObj [(''limit'', JNum 10)]) options)) = Inr cursor \<and>
     coll (ToArray cursor) = Inl e \<longrightarrow>
       getDocuments coll c flt options =
         finish [Message Debug ''Getting documents'', Value Verbose (deflt (JObj []) flt),
                 Value Verbose (deflt (JObj [(''limit'', JNum 10)]) options)]
           [Find flt0' (deflt (JObj [(''limit'', JNum 10)]) options), ToArray cursor]
           (Rejected e)) \<and>
    (coll (CountDocuments (deflt (JObj []) flt) (deflt (JObj []) options)) = Inl e \<longrightarrow>
       getCount coll flt options =
         finish [Message Debug ''Getting document count'',
                 Value Verbose (deflt (JObj []) options)]
           [CountDocuments (deflt (JObj []) flt) (deflt (JObj []) options)] (Rejected e))"
  using assms
  by (simp add: deleteDocument_def replaceDocument_def updateDocument_def drop_collection_def
      wipe_def insertDocument_def getDocument_def getDocuments_def getCount_def Let_def)

theorem store_failure_witness:
  "deleteDocument failing_store hexObjectID (JObj [(''name'', JStr ''a'')]) JUndefined
     = finish [Message Debug ''Deleting document'', Value Verbose (JObj [(''name'', JStr ''a'')]),
               Value Verbose (JObj [])]
         [DeleteOne (JObj [(''name'', JStr ''a'')])]
         (Rejected (OperationFailure ''connection lost'')) \<and>
   replaceDocument failing_store hexObjectID (JObj [(''name'', JStr ''a'')])
       (JObj [(''name'', JStr ''b'')]) JUndefined
     = finish [Message Debug ''Replacing document'', Value Verbose (JObj [(''name'', JStr ''a'')]),
               Value Verbose (JObj [(''name'', JStr ''b'')]), Value Verbose (JObj [])]
         [ReplaceOne (JObj [(''name'', JStr ''a'')]) (JObj [(''name'', JStr ''b'')]) (JObj [])]
         (Rejected (OperationFailure ''connection lost'')) \<and>
   updateDocument failing_store hexObjectID (JObj [(''name'', JStr ''a'')])
       (JObj [(''name'', JStr ''b'')]) JUndefined
     = finish [Message Debug ''Updating document'', Value Verbose (JObj [(''name'', JStr ''a'')]),
               Value Verbose (JObj [(''name'', JStr ''b'')]), Value Verbose (JObj [])]
         [UpdateOne (JObj [(''name'', JStr ''a'')]) (JObj [(''name'', JStr ''b'')]) (JObj [])]
         (Rejected (OperationFailure ''connection lost'')) \<and>
   drop_collection failing_store
     = finish [Message Debug ''Dropping collection'',
               Message Error ''Failed to drop collection'',
               Thrown Error (OperationFailure ''connection lost'')]
         [DropCollection] (Resolved JUndefined) \<and>
   wipe failing_store
     = finish [Message Debug ''Wiping collection'',
               Message Error ''Failed to wipe collection'',
               Thrown Error (OperationFailure ''connection lost'')]
         [DeleteMany (JObj [])] (Resolved JUndefined) \<and>
   insertDocument failing_store (JObj [(''name'', JStr ''b'')]) JUndefined
     = finish [Message Debug ''Inserting document'', Value Verbose (JObj [(''name'', JStr ''b'')]),
               Value Verbose (JObj [])]
         [InsertOne (JObj [(''name'', JStr ''b'')]) (JObj [])]
         (Rejected (OperationFailure ''connection lost'')) \<and>
   getDocument failing_store hexObjectID (JObj [(''name'', JStr ''a'')]) JUndefined
     = finish [Message Debug ''Getting document'', Value Verbose (JObj [(''name'', JStr ''a'')]),
               Value Verbose (JObj [])]
         [FindOne (JObj [(''name'', JStr ''a'')]) (JObj [])]
         (Rejected (OperationFailure ''connection lost'')) \<and>
   getDocuments failing_store hexObjectID (JObj [(''name'', JStr ''a'')]) JUndefined
     = finish [Message Debug ''Getting documents'', Value Verbose (JObj [(''name'', JStr ''a'')]),
               Value Verbose (JObj [(''limit'', JNum 10)])]
         [Find (JObj [(''name'', JStr ''a'')]) (JObj [(''limit'', JNum 10)])]
         (Rejected (OperationFailure ''connection lost'')) \<and>
   getCount failing_store (JObj [(''name'', JStr ''a'')]) JUndefined
     = finish [Message Debug ''Getting document count'', Value Verbose (JObj [])]
         [CountDocuments (JObj [(''name'', JStr ''a'')]) (JObj [])]
         (Rejected (OperationFailure ''connection lost'')) \<and>
   getDocuments failing_store hexObjectID JUndefined JUndefined
     = finish [Message Debug ''Getting documents'', Value Verbose (JObj []),
               Value Verbose (JObj [(''limit'', JNum 10)])]
         [Find (JObj []) (JObj [(''limit'', JNum 10)])]
         (Rejected (OperationFailure ''connection lost'')) \<and>
   getDocuments cursor_failing_store hexObjectID (JObj [(''name'', JStr ''a'')]) JUndefined
     = finish [Message Debug ''Getting documents'', Value Verbose (JObj [(''name'', JStr ''a'')]),
               Value Verbose (JObj [(''limit'', JNum 10)])]
         [Find (JObj [(''name'', JStr ''a'')]) (JObj [(''limit'', JNum 10)]), ToArray (JObj [])]
         (Rejected (OperationFailure ''cursor lost''))"
  using store_failure
      [where c = hexObjectID and flt = "JObj [(''name'', JStr ''a'')]"
         and flt' = "JObj [(''name'', JStr ''a'')]" and flt0' = "JObj [(''name'', JStr ''a'')]"
         and coll = failing_store
         and e = "OperationFailure ''connection lost''" and options = JUndefined
         and document = "JObj [(''name'', JStr ''b'')]" and doc = "JObj [(''name'', JStr ''b'')]"
         and cursor = JNull]
    store_failure
      [where c = hexObjectID and flt = JUndefined and flt' = JUndefined and flt0' = "JObj []"
         and coll = failing_store
         and e = "OperationFailure ''connection lost''" and options = JUndefined
         and document = "JObj [(''name'', JStr ''b'')]" and doc = "JObj [(''name'', JStr ''b'')]"
         and cursor = JNull]
    store_failure
      [where c = hexObjectID and flt = "JObj [(''name'', JStr ''a'')]"
         and flt' = "JObj [(''name'', JStr ''a'')]" and flt0' = "JObj [(''name'', JStr ''a'')]"
         and coll = cursor_failing_store
         and e = "OperationFailure ''cursor lost''" and options = JUndefined
         and document = "JObj [(''name'', JStr ''b'')]" and doc = "JObj [(''name'', JStr ''b'')]"
         and cursor = "JObj []"]
  by (simp add: failing_store_def cursor_failing_store_def deflt_def)

text \<open>
  C2 fails for the count: getCount submits the filter exactly as it was given,
  the \<^verbatim>\<open>_id\<close> still a string, where getDocument on the same filter submits
  the identifier.
\<close>

theorem getCount_skips_processFilter:
  "submitted (getCount coll (JObj [(''_id'', JStr ''0123456789abcdef01234567'')]) JUndefined)
     = [CountDocuments (JObj [(''_id'', JStr ''0123456789abcdef01234567'')]) (JObj [])] \<and>
   submitted (getDocument coll hexObjectID
                (JObj [(''_id'', JStr ''0123456789abcdef01234567'')]) JUndefined)
     = [FindOne (JObj [(''_id'', JOid ''0123456789abcdef01234567'')]) (JObj [])]"
  by (simp add: getCount_def getDocument_def coerceId_def is_hex_def deflt_def Let_def
      split: sum.splits)

text \<open>
  C3, as the specification states it, fails: the filter matches exactly one
  document, the update leaves it as it was, and updateDocument returns
  \<^verbatim>\<open>false\<close>.
\<close>

theorem updateDocument_match_unmodified_counterexample:
  "settled (updateDocument unchanged_store hexObjectID (JObj [(''name'', JStr ''a'')])
              (JObj [(''$set'', JObj [(''name'', JStr ''a'')])]) JUndefined)
     = Resolved (JBool False)"
  by (simp add: updateDocument_def unchanged_store_def deflt_def Let_def)

text \<open>
  C3, amended. When the store answers, deleteDocument resolves with whether the
  reported \<^verbatim>\<open>deletedCount\<close> is not zero, and replaceDocument and updateDocument
  with whether the reported \<^verbatim>\<open>modifiedCount\<close> is not zero; nothing is thrown. So
  each returns \<^verbatim>\<open>false\<close> when no document is affected, as when the filter
  matches none, and \<^verbatim>\<open>true\<close> when one document is deleted or modified.
\<close>

theorem write_result_from_counts:
  assumes "processFilter c flt = (flt', None)"
  shows
   "(coll (DeleteOne flt') = Inr r \<and> getProp r ''deletedCount'' = Inr (JNum n) \<longrightarrow>
       settled (deleteDocument coll c flt options) = Resolved (JBool (n \<noteq> 0))) \<and>
    (deleteProp document ''_id'' = Inr doc \<and>
     coll (ReplaceOne flt' doc (deflt (JObj []) options)) = Inr r \<and>
     getProp r ''modifiedCount'' = Inr (JNum n) \<longrightarrow>
       settled (replaceDocument coll c flt document options) = Resolved (JBool (n \<noteq> 0))) \<and>
    (deleteProp document ''_id'' = Inr doc \<and>
     coll (UpdateOne flt' doc (deflt (JObj []) options)) = Inr r \<and>
     getProp r ''modifiedCount'' = Inr (JNum n) \<longrightarrow>
       settled (updateDocument coll c flt document options) = Resolved (JBool (n \<noteq> 0)))"
  using assms
  by (simp add: deleteDocument_def replaceDocument_def updateDocument_def Let_def)

theorem write_result_from_counts_witness:
  "settled (deleteDocument modifying_store hexObjectID (JObj [(''name'', JStr ''a'')]) JUndefined)
     = Resolved (JBool True) \<and>
   settled (replaceDocument modifying_store hexObjectID (JObj [(''name'', JStr ''a'')])
              (JObj [(''name'', JStr ''b'')]) JUndefined) = Resolved (JBool True) \<and>
   settled (updateDocument modifying_store hexObjectID (JObj [(''name'', JStr ''a'')])
              (JObj [(''name'', JStr ''b'')]) JUndefined) = Resolved (JBool True) \<and>
   settled (replaceDocument unchanged_store hexObjectID (JObj [(''name'', JStr ''a'')])
              (JObj [(''name'', JStr ''b'')]) JUndefined) = Resolved (JBool False) \<and>
   settled (updateDocument unchanged_store hexObjectID (JObj [(''name'', JStr ''a'')])
              (JObj [(''name'', JStr ''b'')]) JUndefined) = Resolved (JBool False)"
  using write_result_from_counts
      [where c = hexObjectID and flt = "JObj [(''name'', JStr ''a'')]"
         and flt' = "JObj [(''name'', JStr ''a'')]" and coll = modifying_store
         and options = JUndefined and n = 1
         and r = "JObj [(''matchedCount'', JNum 1), (''modifiedCount'', JNum 1),
                        (''deletedCount'', JNum 1)]"
         and document = "JObj [(''name'', JStr ''b'')]" and doc = "JObj [(''name'', JStr ''b'')]"]
    write_result_from_counts
      [where c = hexObjectID and flt = "JObj [(''name'', JStr ''a'')]"
         and flt' = "JObj [(''name'', JStr ''a'')]" and coll = unchanged_store
         and options = JUndefined and n = 0
         and r = "JObj [(''matchedCount'', JNum 1), (''modifiedCount'', JNum 0)]"
         and document = "JObj [(''name'', JStr ''b'')]" and doc = "JObj [(''name'', JStr ''b'')]"]
  by (simp add: modifying_store_def unchanged_store_def deflt_def)

text \<open>
  C7, as the specification states it, fails: the top-level \<^verbatim>\<open>_id\<close> of the
  update is deleted, the \<^verbatim>\<open>_id\<close> under \<^verbatim>\<open>$set\<close> is submitted to the store.
\<close>

theorem updateDocument_nested_id_counterexample:
  "submitted (updateDocument unchanged_store hexObjectID (JObj [(''name'', JStr ''a'')])
                (JObj [(''_id'', JNum 1), (''$set'', JObj [(''_id'', JNum 7)])]) JUndefined)
     = [UpdateOne (JObj [(''name'', JStr ''a'')]) (JObj [(''$set'', JObj [(''_id'', JNum 7)])])
          (JObj [])] \<and>
   has_id_key (JObj [(''$set'', JObj [(''_id'', JNum 7)])])"
  by (simp add: updateDocument_def unchanged_store_def deflt_def Let_def)

text \<open>
  C7, amended. replaceDocument and updateDocument submit the payload they were
  given without its own top-level \<^verbatim>\<open>_id\<close> key: reading \<^verbatim>\<open>_id\<close> of the
  submitted payload gives \<^verbatim>\<open>undefined\<close>, and every other field is submitted
  as it was.
\<close>

theorem payload_loses_top_level_id:
  assumes "processFilter c flt = (flt', None)"
  shows "submitted (replaceDocument coll c flt (JObj kvs) options)
           = [ReplaceOne flt' (JObj (filter (\<lambda>kv. fst kv \<noteq> ''_id'') kvs))
                (deflt (JObj []) options)] \<and>
         submitted (updateDocument coll c flt (JObj kvs) options)
           = [UpdateOne flt' (JObj (filter (\<lambda>kv. fst kv \<noteq> ''_id'') kvs))
                (deflt (JObj []) options)] \<and>
         getProp (JObj (filter (\<lambda>kv. fst kv \<noteq> ''_id'') kvs)) ''_id'' = Inr JUndefined"
proof -
  have "map_of (filter (\<lambda>kv. fst kv \<noteq> ''_id'') kvs) ''_id'' = None"
    by (induction kvs) auto
  then show ?thesis
    using filter_operations_submit_processed_filter(3,4)[OF assms, of "JObj kvs"]
    by simp
qed

theorem payload_loses_top_level_id_witness:
  "submitted (replaceDocument unchanged_store hexObjectID (JObj [(''name'', JStr ''a'')])
                (JObj [(''_id'', JNum 1), (''name'', JStr ''b'')]) JUndefined)
     = [ReplaceOne (JObj [(''name'', JStr ''a'')]) (JObj [(''name'', JStr ''b'')]) (JObj [])] \<and>
   submitted (updateDocument unchanged_store hexObjectID (JObj [(''name'', JStr ''a'')])
                (JObj [(''_id'', JNum 1), (''name'', JStr ''b'')]) JUndefined)
     = [UpdateOne (JObj [(''name'', JStr ''a'')]) (JObj [(''name'', JStr ''b'')]) (JObj [])]"
  using payload_loses_top_level_id
      [where c = hexObjectID and flt = "JObj [(''name'', JStr ''a'')]"
         and flt' = "JObj [(''name'', JStr ''a'')]" and coll = unchanged_store
         and options = JUndefined and kvs = "[(''_id'', JNum 1), (''name'', JStr ''b'')]"]
  by (simp add: deflt_def)

section \<open>Database: proofs\<close>

lemma log_fields [simp]:
  "db (log e this) = db this" "calls (log e this) = calls this"
  "logger (log e this) = logger this @ [e]" "collections (log e this) = collections this"
  "collection_names (log e this) = collection_names this"
  "name (log e this) = name this" "url (log e this) = url this"
  by (simp_all add: log_def)

lemma called_fields [simp]:
  "db (called k this) = db this" "calls (called k this) = calls this @ [k]"
  "logger (called k this) = logger this" "collections (called k this) = collections this"
  "collection_names (called k this) = collection_names this"
  "name (called k this) = name this" "url (called k this) = url this"
  by (simp_all add: called_def)

lemma register_fields [simp]:
  "db (register nm this) = db this" "calls (register nm this) = calls this"
  "logger (register nm this) = logger this"
  "set (collections (register nm this)) = insert nm (set (collections this))"
  "collection_names (register nm this) = collection_names this"
  by (auto simp: register_def)

lemma found_fields [simp]:
  "db (found this nm) = db this" "calls (found this nm) = calls this"
  "set (collections (found this nm)) = insert nm (set (collections this))"
  "collection_names (found this nm) = collection_names this"
  by (simp_all add: found_def)










end
